theory Spec2Isabelle
  imports Complex_Main
begin

section \<open>Python values used by the payment optimizer\<close>

text \<open>
  Python floats are modelled as real numbers extended with the three non-finite values
  that \<^verbatim>\<open>float()\<close> can return. Rounding and overflow of finite results are not modelled:
  a finite float is the real number it denotes.
\<close>

datatype pyfloat = Fin real | PInf | NInf | NaN

datatype py_exn = ValueError | AttributeError | TypeError | ZeroDivisionError

datatype py_value =
    PyNone
  | PyBool bool
  | PyInt int
  | PyFloat pyfloat
  | PyStr string
  | PyBytes string

text \<open>Sequencing of steps that may raise: the first exception ends the computation.\<close>

definition and_then :: "'e + 'a \<Rightarrow> ('a \<Rightarrow> 'e + 'b) \<Rightarrow> 'e + 'b" where
  "and_then r f = (case r of Inl e \<Rightarrow> Inl e | Inr x \<Rightarrow> f x)"

subsection \<open>Float comparison and arithmetic\<close>

text \<open>\<open>flt a b\<close> is Python's \<^verbatim>\<open>a < b\<close>: every comparison with nan is false.\<close>

fun flt :: "pyfloat \<Rightarrow> pyfloat \<Rightarrow> bool" where
  "flt NaN _ = False"
| "flt _ NaN = False"
| "flt (Fin a) (Fin b) = (a < b)"
| "flt PInf _ = False"
| "flt _ PInf = True"
| "flt NInf NInf = False"
| "flt NInf (Fin _) = True"
| "flt (Fin _) NInf = False"

text \<open>\<open>fge a b\<close> is Python's \<^verbatim>\<open>a >= b\<close>.\<close>

definition fge :: "pyfloat \<Rightarrow> pyfloat \<Rightarrow> bool" where
  "fge a b = (a \<noteq> NaN \<and> b \<noteq> NaN \<and> \<not> flt a b)"

text \<open>
  The builtins \<^verbatim>\<open>min(a, b)\<close> and \<^verbatim>\<open>max(a, b)\<close> keep the first argument unless the
  second is strictly smaller (respectively larger).
\<close>

definition py_min :: "pyfloat \<Rightarrow> pyfloat \<Rightarrow> pyfloat" where
  "py_min a b = (if flt b a then b else a)"

definition py_max :: "pyfloat \<Rightarrow> pyfloat \<Rightarrow> pyfloat" where
  "py_max a b = (if flt a b then b else a)"

fun fneg :: "pyfloat \<Rightarrow> pyfloat" where
  "fneg (Fin a) = Fin (- a)"
| "fneg PInf = NInf"
| "fneg NInf = PInf"
| "fneg NaN = NaN"

fun fadd :: "pyfloat \<Rightarrow> pyfloat \<Rightarrow> pyfloat" where
  "fadd NaN _ = NaN"
| "fadd _ NaN = NaN"
| "fadd (Fin a) (Fin b) = Fin (a + b)"
| "fadd PInf NInf = NaN"
| "fadd NInf PInf = NaN"
| "fadd PInf _ = PInf"
| "fadd NInf _ = NInf"
| "fadd (Fin _) b = b"

text \<open>The product of an infinity with a finite factor \<open>a\<close>.\<close>

definition inf_times :: "pyfloat \<Rightarrow> real \<Rightarrow> pyfloat" where
  "inf_times i a = (if a = 0 then NaN else if 0 < a then i else fneg i)"

fun fmul :: "pyfloat \<Rightarrow> pyfloat \<Rightarrow> pyfloat" where
  "fmul NaN _ = NaN"
| "fmul _ NaN = NaN"
| "fmul (Fin a) (Fin b) = Fin (a * b)"
| "fmul (Fin a) i = inf_times i a"
| "fmul i (Fin b) = inf_times i b"
| "fmul PInf i = i"
| "fmul NInf i = fneg i"

text \<open>
  Python's float division raises \<^verbatim>\<open>ZeroDivisionError\<close> on a zero divisor, whatever the
  dividend.
\<close>

fun fdiv :: "pyfloat \<Rightarrow> pyfloat \<Rightarrow> py_exn + pyfloat" where
  "fdiv a (Fin b) =
     (if b = 0 then Inl ZeroDivisionError
      else case a of Fin x \<Rightarrow> Inr (Fin (x / b)) | NaN \<Rightarrow> Inr NaN
                   | i \<Rightarrow> Inr (if 0 < b then i else fneg i))"
| "fdiv _ NaN = Inr NaN"
| "fdiv (Fin _) _ = Inr (Fin 0)"
| "fdiv _ _ = Inr NaN"

subsection \<open>The builtin float()\<close>

text \<open>
  \<^verbatim>\<open>float(s)\<close> on a string: surrounding whitespace is dropped, then an optional sign is
  followed by \<^verbatim>\<open>inf\<close>, \<^verbatim>\<open>infinity\<close> or \<^verbatim>\<open>nan\<close> in any case, or by a decimal number with
  an optional exponent. Digits may be grouped by single underscores. Characters are
  bytes here, so only ASCII digits and ASCII whitespace are recognised.
\<close>

definition digit_val :: "char \<Rightarrow> nat option" where
  "digit_val c = (let n = (of_char c :: nat) in if 48 \<le> n \<and> n \<le> 57 then Some (n - 48) else None)"

definition is_space :: "char \<Rightarrow> bool" where
  "is_space c = (c \<in> set [CHR '' '', CHR 0x09, CHR 0x0A, CHR 0x0B, CHR 0x0C, CHR 0x0D,
                            CHR 0x1C, CHR 0x1D, CHR 0x1E, CHR 0x1F])"

definition strip :: "string \<Rightarrow> string" where
  "strip s = rev (dropWhile is_space (rev (dropWhile is_space s)))"

definition lower :: "char \<Rightarrow> char" where
  "lower c = (let n = (of_char c :: nat) in if 65 \<le> n \<and> n \<le> 90 then char_of (n + 32) else c)"

text \<open>
  \<open>digitpart v k s\<close> reads a run of digits from \<open>s\<close>, continuing the value \<open>v\<close> of the
  \<open>k\<close> digits read so far; an underscore is accepted only between two digits. It returns
  the value, the number of digits and the unread rest.
\<close>

fun digitpart :: "nat \<Rightarrow> nat \<Rightarrow> string \<Rightarrow> nat \<times> nat \<times> string" where
  "digitpart v k [] = (v, k, [])"
| "digitpart v k (c # cs) =
     (case digit_val c of
        Some d \<Rightarrow> digitpart (10 * v + d) (Suc k) cs
      | None \<Rightarrow>
          if c = CHR ''_'' \<and> 0 < k \<and> (case cs of [] \<Rightarrow> False | c' # _ \<Rightarrow> digit_val c' \<noteq> None)
          then digitpart v k cs
          else (v, k, c # cs))"

text \<open>The exponent suffix: nothing, or \<^verbatim>\<open>e\<close>/\<^verbatim>\<open>E\<close>, an optional sign and at least one digit.\<close>

definition exponent :: "string \<Rightarrow> int option" where
  "exponent s =
     (case s of
        [] \<Rightarrow> Some 0
      | c # r \<Rightarrow>
          if c = CHR ''e'' \<or> c = CHR ''E'' then
            (let (neg, r') = (case r of
                                [] \<Rightarrow> (False, r)
                              | d # r'' \<Rightarrow> if d = CHR ''-'' then (True, r'')
                                          else if d = CHR ''+'' then (False, r'')
                                          else (False, r));
                 (ev, ek, rest) = digitpart 0 0 r'
             in if 0 < ek \<and> rest = [] then Some (if neg then - int ev else int ev) else None)
          else None)"

definition scale10 :: "real \<Rightarrow> int \<Rightarrow> real" where
  "scale10 x e = (if 0 \<le> e then x * 10 ^ nat e else x / 10 ^ nat (- e))"

text \<open>An unsigned decimal number: digits, an optional point and fraction, an exponent.\<close>

definition float_number :: "string \<Rightarrow> real option" where
  "float_number s =
     (let (iv, ik, r1) = digitpart 0 0 s;
          (fv, fk, r2) = (case r1 of
                            [] \<Rightarrow> (0, 0, r1)
                          | c # r \<Rightarrow> if c = CHR ''.'' then digitpart 0 0 r else (0, 0, r1))
      in if ik = 0 \<and> fk = 0 then None
         else (case exponent r2 of
                 None \<Rightarrow> None
               | Some e \<Rightarrow> Some (scale10 (real iv + real fv / 10 ^ fk) e)))"

definition float_of_str :: "string \<Rightarrow> py_exn + pyfloat" where
  "float_of_str s =
     (let t = strip s;
          (neg, body) = (case t of
                           [] \<Rightarrow> (False, t)
                         | c # r \<Rightarrow> if c = CHR ''-'' then (True, r)
                                   else if c = CHR ''+'' then (False, r)
                                   else (False, t));
          low = map lower body
      in if low = ''inf'' \<or> low = ''infinity'' then Inr (if neg then NInf else PInf)
         else if low = ''nan'' then Inr NaN
         else (case float_number body of
                 None \<Rightarrow> Inl ValueError
               | Some x \<Rightarrow> Inr (Fin (if neg then - x else x))))"

text \<open>\<^verbatim>\<open>float(v)\<close> on any value: \<^verbatim>\<open>None\<close> is a \<^verbatim>\<open>TypeError\<close>, text is parsed.\<close>

fun py_float :: "py_value \<Rightarrow> py_exn + pyfloat" where
  "py_float PyNone = Inl TypeError"
| "py_float (PyBool b) = Inr (Fin (if b then 1 else 0))"
| "py_float (PyInt i) = Inr (Fin (real_of_int i))"
| "py_float (PyFloat x) = Inr x"
| "py_float (PyStr s) = float_of_str s"
| "py_float (PyBytes s) = float_of_str s"

text \<open>
  \<^verbatim>\<open>v.replace(c, '')\<close> with string arguments: only \<^verbatim>\<open>str\<close> and \<^verbatim>\<open>bytes\<close> have the method,
  and the \<^verbatim>\<open>bytes\<close> method rejects string arguments.
\<close>

fun replace_del :: "py_value \<Rightarrow> char \<Rightarrow> py_exn + py_value" where
  "replace_del (PyStr s) c = Inr (PyStr (filter (\<lambda>x. x \<noteq> c) s))"
| "replace_del (PyBytes _) c = Inl TypeError"
| "replace_del _ c = Inl AttributeError"

section \<open>CostAwareEfficiencyMetric\<close>

text \<open>
  A prediction exposes its attributes and a serialized form (\<^verbatim>\<open>str(prediction)\<close>); the
  attribute \<^verbatim>\<open>total_savings\<close> may be absent. An example is a dictionary.
\<close>

record prediction =
  total_savings :: "py_value option"
  serialized :: string

type_synonym example = "string \<rightharpoonup> py_value"

definition dict_get :: "example \<Rightarrow> string \<Rightarrow> py_value \<Rightarrow> py_value" where
  "dict_get d k dflt = (case d k of None \<Rightarrow> dflt | Some v \<Rightarrow> v)"

definition getattr_total_savings :: "prediction \<Rightarrow> py_exn + py_value" where
  "getattr_total_savings p = (case total_savings p of None \<Rightarrow> Inl AttributeError | Some v \<Rightarrow> Inr v)"

text \<open>
  The first statement of the \<^verbatim>\<open>try\<close> block: read the attribute, delete \<^verbatim>\<open>$\<close> and
  \<^verbatim>\<open>,\<close> from it, and convert the result.
\<close>

definition parse_savings :: "prediction \<Rightarrow> py_exn + pyfloat" where
  "parse_savings p =
     and_then (getattr_total_savings p) (\<lambda>v.
     and_then (replace_del v CHR ''$'') (\<lambda>v1.
     and_then (replace_del v1 CHR '','') py_float))"

text \<open>The body of the \<^verbatim>\<open>try\<close> block of \<^verbatim>\<open>__call__\<close>, for a metric with threshold \<open>th\<close>.\<close>

definition metric_try :: "pyfloat \<Rightarrow> example \<Rightarrow> prediction \<Rightarrow> py_exn + pyfloat" where
  "metric_try th ex p =
     and_then (parse_savings p) (\<lambda>savings.
     and_then (py_float (dict_get ex ''target_savings'' (PyInt 0))) (\<lambda>target.
     and_then (fdiv savings (py_max target (Fin 1))) (\<lambda>q.
       let savings_accuracy = py_min q (Fin 1);
           token_count = length (serialized p);
           token_efficiency = Fin (1 / (1 + real token_count / 1000));
           cost_efficiency = fadd (fmul savings_accuracy (Fin 0.7)) (fmul token_efficiency (Fin 0.3));
           cost_efficiency' = (if fge savings (fmul target th)
                               then fadd cost_efficiency (Fin 0.2) else cost_efficiency)
       in Inr (py_min cost_efficiency' (Fin 1)))))"

text \<open>\<^verbatim>\<open>__call__\<close>: the handler turns \<^verbatim>\<open>ValueError\<close> and \<^verbatim>\<open>AttributeError\<close> into the score 0.0.\<close>

definition metric_call :: "pyfloat \<Rightarrow> example \<Rightarrow> prediction \<Rightarrow> py_exn + pyfloat" where
  "metric_call th ex p =
     (case metric_try th ex p of
        Inl ValueError \<Rightarrow> Inr (Fin 0)
      | Inl AttributeError \<Rightarrow> Inr (Fin 0)
      | r \<Rightarrow> r)"

definition default_threshold :: pyfloat where
  "default_threshold = Fin 0.3"

text \<open>
  The savings text that reaches \<^verbatim>\<open>float()\<close> when \<^verbatim>\<open>total_savings\<close> is the string \<open>a\<close>.
\<close>

definition savings_text :: "string \<Rightarrow> string" where
  "savings_text a = filter (\<lambda>x. x \<noteq> CHR '','') (filter (\<lambda>x. x \<noteq> CHR ''$'') a)"

text \<open>
  The score as the specification words it, for threshold \<open>th\<close>, target \<open>t\<close>, savings \<open>s\<close>
  and serialized length \<open>n\<close>.
\<close>

definition score_formula :: "real \<Rightarrow> real \<Rightarrow> real \<Rightarrow> nat \<Rightarrow> real" where
  "score_formula th t s n =
     min (0.7 * min (s / max t 1) 1 + 0.3 * (1 / (1 + real n / 1000))
          + (if s \<ge> t * th then 0.2 else 0)) 1"

section \<open>create_mock_payment_dataset\<close>

record scenario =
  amount :: real
  currency :: string
  invoice_details :: string
  query_cost :: real
  user_balance :: int
  urgency :: string
  target_savings :: real

definition scenarios :: "scenario list" where
  "scenarios =
     [\<lparr>amount = 1000, currency = ''USD'',
       invoice_details = ''Vendor invoice for software licensing'',
       query_cost = 0.05, user_balance = 5000, urgency = ''low'', target_savings = 50\<rparr>,
      \<lparr>amount = 500, currency = ''USD'',
       invoice_details = ''Marketing services invoice'',
       query_cost = 0.03, user_balance = 2000, urgency = ''medium'', target_savings = 25\<rparr>,
      \<lparr>amount = 2000, currency = ''USD'',
       invoice_details = ''Cloud infrastructure invoice'',
       query_cost = 0.08, user_balance = 10000, urgency = ''high'', target_savings = 100\<rparr>,
      \<lparr>amount = 150, currency = ''USD'',
       invoice_details = ''API usage invoice'',
       query_cost = 0.02, user_balance = 1000, urgency = ''low'', target_savings = 15\<rparr>,
      \<lparr>amount = 3000, currency = ''USD'',
       invoice_details = ''Enterprise software license'',
       query_cost = 0.12, user_balance = 15000, urgency = ''medium'', target_savings = 150\<rparr>]"

text \<open>
  The random generator is the sequence \<open>g\<close> of its unit draws (each in the interval from 0
  to 1) and the position of the next one. \<^verbatim>\<open>np.random.uniform(lo, hi)\<close> scales one draw
  into the requested range and advances the position.
\<close>

definition uniform :: "real \<Rightarrow> real \<Rightarrow> (nat \<Rightarrow> real) \<Rightarrow> nat \<Rightarrow> real \<times> nat" where
  "uniform lo hi g i = (lo + (hi - lo) * g i, Suc i)"

text \<open>One pass of the inner loop body: copy the seed and perturb three fields.\<close>

definition vary :: "scenario \<Rightarrow> (nat \<Rightarrow> real) \<Rightarrow> nat \<Rightarrow> scenario \<times> nat" where
  "vary sc g i =
     (let (a, i1) = uniform 0.8 1.2 g i;
          (q, i2) = uniform 0.9 1.1 g i1;
          (t, i3) = uniform 0.8 1.2 g i2
      in (sc\<lparr>amount := amount sc * a,
             query_cost := query_cost sc * q,
             target_savings := target_savings sc * t\<rparr>, i3))"

text \<open>The inner loop \<^verbatim>\<open>for _ in range(k)\<close>, appending to the dataset \<open>ds\<close>.\<close>

fun variations :: "nat \<Rightarrow> scenario \<Rightarrow> (nat \<Rightarrow> real) \<Rightarrow> scenario list \<Rightarrow> nat \<Rightarrow> scenario list \<times> nat" where
  "variations 0 sc g ds i = (ds, i)"
| "variations (Suc k) sc g ds i =
     (let (v, i') = vary sc g i in variations k sc g (ds @ [v]) i')"

text \<open>The outer loop over the seed scenarios.\<close>

fun generate :: "scenario list \<Rightarrow> (nat \<Rightarrow> real) \<Rightarrow> scenario list \<Rightarrow> nat \<Rightarrow> scenario list \<times> nat" where
  "generate [] g ds i = (ds, i)"
| "generate (sc # scs) g ds i =
     (let (ds', i') = variations 20 sc g ds i in generate scs g ds' i')"

definition create_mock_payment_dataset :: "(nat \<Rightarrow> real) \<Rightarrow> scenario list" where
  "create_mock_payment_dataset g = fst (generate scenarios g [] 0)"

text \<open>What a variant keeps from its seed, and the range of each perturbed field.\<close>

definition keeps_fixed_fields :: "scenario \<Rightarrow> scenario \<Rightarrow> bool" where
  "keeps_fixed_fields seed v =
     (currency v = currency seed \<and> invoice_details v = invoice_details seed \<and>
      user_balance v = user_balance seed \<and> urgency v = urgency seed)"

definition within_bounds :: "scenario \<Rightarrow> scenario \<Rightarrow> bool" where
  "within_bounds seed v =
     (0.8 * amount seed \<le> amount v \<and> amount v \<le> 1.2 * amount seed \<and>
      0.9 * query_cost seed \<le> query_cost v \<and> query_cost v \<le> 1.1 * query_cost seed \<and>
      0.8 * target_savings seed \<le> target_savings v \<and>
      target_savings v \<le> 1.2 * target_savings seed)"

text \<open>The perturbed fields of a seed are not negative.\<close>

definition nonneg_seed :: "scenario \<Rightarrow> bool" where
  "nonneg_seed sc = (0 \<le> amount sc \<and> 0 \<le> query_cost sc \<and> 0 \<le> target_savings sc)"

section \<open>HTTP transport shared by the clients\<close>

datatype json =
    JNull
  | JBool bool
  | JNum real
  | JStr string
  | JArr "json list"
  | JObj "(string \<times> json) list"

text \<open>Python truthiness of a decoded JSON value.\<close>

fun truthy :: "json \<Rightarrow> bool" where
  "truthy JNull = False"
| "truthy (JBool b) = b"
| "truthy (JNum x) = (x \<noteq> 0)"
| "truthy (JStr s) = (s \<noteq> [])"
| "truthy (JArr xs) = (xs \<noteq> [])"
| "truthy (JObj kvs) = (kvs \<noteq> [])"

datatype http_method = GET | POST

record http_request =
  req_method :: http_method
  req_url :: string
  req_headers :: "(string \<times> string) list"
  req_json :: "json option"
  req_timeout :: "nat option"

text \<open>
  A response carries its decoded body: \<open>body\<close> is \<open>None\<close> when \<^verbatim>\<open>response.json()\<close>
  cannot decode it.
\<close>

record http_response =
  status_code :: nat
  reason :: string
  body :: "json option"

datatype net_reply = Timeout | ConnectionError | Response http_response

type_synonym network = "http_request \<Rightarrow> net_reply"

datatype http_exn =
    ValueErr json
  | RequestException string
  | RequestsTimeout
  | RequestsConnectionError
  | JSONDecodeError
  | AttributeErr
  | KeyErr string
  | TypeErr

text \<open>Decimal rendering of a status code inside an f-string.\<close>

fun show_nat :: "nat \<Rightarrow> string" where
  "show_nat n =
     (if n < 10 then [char_of (48 + n)]
      else show_nat (n div 10) @ [char_of (48 + n mod 10)])"

definition upper :: "char \<Rightarrow> char" where
  "upper c = (let n = (of_char c :: nat) in if 97 \<le> n \<and> n \<le> 122 then char_of (n - 32) else c)"

definition startswith :: "string \<Rightarrow> string \<Rightarrow> bool" where
  "startswith s p = (take (length p) s = p)"

definition rstrip_slash :: "string \<Rightarrow> string" where
  "rstrip_slash s = rev (dropWhile (\<lambda>c. c = CHR ''/'') (rev s))"

text \<open>\<^verbatim>\<open>requests.utils.quote\<close>: every byte outside the unreserved set and \<^verbatim>\<open>/\<close> is escaped.\<close>

definition hex_digit :: "nat \<Rightarrow> char" where
  "hex_digit n = ''0123456789ABCDEF'' ! (n mod 16)"

definition quote_safe :: "char \<Rightarrow> bool" where
  "quote_safe c =
     (let n = (of_char c :: nat)
      in (65 \<le> n \<and> n \<le> 90) \<or> (97 \<le> n \<and> n \<le> 122) \<or> (48 \<le> n \<and> n \<le> 57) \<or>
         c \<in> set ''_.-~/'')"

definition quote :: "string \<Rightarrow> string" where
  "quote s =
     concat (map (\<lambda>c. if quote_safe c then [c]
                        else [CHR ''%'', hex_digit (of_char c div 16), hex_digit (of_char c)]) s)"

section \<open>AIAgentClient\<close>

record client =
  api_key :: string
  base_url :: string
  timeout :: nat
  session_headers :: "(string \<times> string) list"

definition init_client :: "string \<Rightarrow> string \<Rightarrow> nat \<Rightarrow> client" where
  "init_client key url t =
     \<lparr>api_key = key, base_url = rstrip_slash url, timeout = t,
      session_headers = [(''Content-Type'', ''application/json''), (''X-API-Key'', key)]\<rparr>"

text \<open>
  The \<^verbatim>\<open>HTTPError\<close> handler: the \<^verbatim>\<open>error\<close> entry of a decoded object body, else the
  status; when the body is no object, the status and reason.
\<close>

definition http_error_message :: "http_response \<Rightarrow> json" where
  "http_error_message r =
     (case body r of
        Some (JObj kvs) \<Rightarrow>
          (case map_of kvs ''error'' of
             Some e \<Rightarrow> e
           | None \<Rightarrow> JStr (''HTTP '' @ show_nat (status_code r)))
      | _ \<Rightarrow> JStr (''HTTP '' @ show_nat (status_code r) @ '': '' @ reason r))"

text \<open>The \<^verbatim>\<open>ValueError\<close> raised for a decoded body whose \<^verbatim>\<open>success\<close> flag is not truthy.\<close>

definition api_error :: "(string \<times> json) list \<Rightarrow> http_exn" where
  "api_error kvs =
     ValueErr (case map_of kvs ''error'' of None \<Rightarrow> JStr ''Unknown API error'' | Some e \<Rightarrow> e)"

text \<open>
  What \<^verbatim>\<open>_make_request\<close> does with the outcome of the transport call:
  \<^verbatim>\<open>raise_for_status\<close>, decoding, and the check of the \<^verbatim>\<open>success\<close> flag.
\<close>

definition handle_reply :: "net_reply \<Rightarrow> http_exn + json" where
  "handle_reply rp =
     (case rp of
        Timeout \<Rightarrow> Inl (RequestException ''Request timeout: API did not respond in time'')
      | ConnectionError \<Rightarrow> Inl (RequestException ''Connection error: Unable to connect to API'')
      | Response r \<Rightarrow>
          if 400 \<le> status_code r \<and> status_code r < 600 then Inl (ValueErr (http_error_message r))
          else (case body r of
                  None \<Rightarrow> Inl JSONDecodeError
                | Some (JObj kvs) \<Rightarrow>
                    if \<not> truthy (case map_of kvs ''success'' of None \<Rightarrow> JBool False | Some v \<Rightarrow> v)
                    then Inl (api_error kvs)
                    else Inr (JObj kvs)
                | Some _ \<Rightarrow> Inl AttributeErr))"

text \<open>
  Every client call returns its outcome together with the list of HTTP requests it has
  issued.
\<close>

type_synonym call_result = "(http_exn + json) \<times> http_request list"

definition send :: "client \<Rightarrow> network \<Rightarrow> http_method \<Rightarrow> string \<Rightarrow> json option \<Rightarrow> call_result" where
  "send c net m url data =
     (let rq = \<lparr>req_method = m, req_url = url, req_headers = session_headers c,
                 req_json = data, req_timeout = Some (timeout c)\<rparr>
      in (handle_reply (net rq), [rq]))"

definition make_request :: "client \<Rightarrow> network \<Rightarrow> string \<Rightarrow> string \<Rightarrow> json option \<Rightarrow> call_result" where
  "make_request c net endpoint method data =
     (let url = (if \<not> startswith endpoint ''http'' then base_url c @ endpoint else endpoint)
      in if map upper method = ''GET'' then send c net GET url None
         else if map upper method = ''POST'' then send c net POST url data
         else (Inl (ValueErr (JStr (''Unsupported HTTP method: '' @ method))), []))"

text \<open>An optional string argument is truthy when it is neither \<^verbatim>\<open>None\<close> nor empty.\<close>

definition truthy_str :: "string option \<Rightarrow> bool" where
  "truthy_str a = (case a of None \<Rightarrow> False | Some s \<Rightarrow> s \<noteq> [])"

definition json_of_str :: "string option \<Rightarrow> json" where
  "json_of_str a = (case a of None \<Rightarrow> JNull | Some s \<Rightarrow> JStr s)"

definition optimize ::
  "client \<Rightarrow> network \<Rightarrow> string option \<Rightarrow> string option \<Rightarrow> string option \<Rightarrow> real option
   \<Rightarrow> call_result" where
  "optimize c net prompt wallet_address provider max_cost =
     (if \<not> truthy_str prompt then (Inl (ValueErr (JStr ''prompt is required'')), [])
      else if \<not> truthy_str wallet_address
      then (Inl (ValueErr (JStr ''wallet_address is required'')), [])
      else
        let data = [(''action'', JStr ''optimize''), (''prompt'', json_of_str prompt),
                    (''walletAddress'', json_of_str wallet_address)];
            data1 = (if truthy_str provider then data @ [(''provider'', json_of_str provider)]
                     else data);
            data2 = (case max_cost of None \<Rightarrow> data1 | Some m \<Rightarrow> data1 @ [(''maxCost'', JNum m)])
        in make_request c net [] ''POST'' (Some (JObj data2)))"

definition chat :: "client \<Rightarrow> network \<Rightarrow> string option \<Rightarrow> string option \<Rightarrow> call_result" where
  "chat c net message wallet_address =
     (if \<not> truthy_str message then (Inl (ValueErr (JStr ''message is required'')), [])
      else if \<not> truthy_str wallet_address
      then (Inl (ValueErr (JStr ''wallet_address is required'')), [])
      else make_request c net [] ''POST''
             (Some (JObj [(''action'', JStr ''chat''), (''message'', json_of_str message),
                          (''walletAddress'', json_of_str wallet_address)])))"

definition connect_wallet :: "client \<Rightarrow> network \<Rightarrow> string option \<Rightarrow> string option \<Rightarrow> call_result" where
  "connect_wallet c net wallet_address signature =
     (if \<not> truthy_str wallet_address
      then (Inl (ValueErr (JStr ''wallet_address is required'')), [])
      else
        let data = [(''action'', JStr ''wallet''), (''walletAddress'', json_of_str wallet_address)];
            data1 = (if truthy_str signature then data @ [(''signature'', json_of_str signature)]
                     else data)
        in make_request c net [] ''POST'' (Some (JObj data1)))"

definition get_analytics :: "client \<Rightarrow> network \<Rightarrow> string option \<Rightarrow> call_result" where
  "get_analytics c net wallet_address =
     (case wallet_address of
        None \<Rightarrow> (Inl (ValueErr (JStr ''wallet_address is required'')), [])
      | Some w \<Rightarrow>
          if w = [] then (Inl (ValueErr (JStr ''wallet_address is required'')), [])
          else make_request c net (''?action=analytics&walletAddress='' @ quote w) ''GET'' None)"

definition get_providers :: "client \<Rightarrow> network \<Rightarrow> call_result" where
  "get_providers c net = make_request c net ''?action=providers'' ''GET'' None"

definition get_info :: "client \<Rightarrow> network \<Rightarrow> call_result" where
  "get_info c net = make_request c net ''?action=info'' ''GET'' None"

section \<open>CostOptimizedAIAgent\<close>

record agent =
  agent_api_key :: string
  agent_base_url :: string
  total_cost :: real
  total_saved :: real
  total_calls :: int

definition init_agent :: "string \<Rightarrow> string \<Rightarrow> agent" where
  "init_agent key url =
     \<lparr>agent_api_key = key, agent_base_url = url, total_cost = 0, total_saved = 0,
      total_calls = 0\<rparr>"

text \<open>Subscription \<^verbatim>\<open>v[k]\<close> with a string key: only an object can be indexed so.\<close>

definition subscript :: "json \<Rightarrow> string \<Rightarrow> http_exn + json" where
  "subscript v k =
     (case v of
        JObj kvs \<Rightarrow> (case map_of kvs k of None \<Rightarrow> Inl (KeyErr k) | Some x \<Rightarrow> Inr x)
      | _ \<Rightarrow> Inl TypeErr)"

text \<open>\<^verbatim>\<open>total += v\<close> on a numeric total: numbers and booleans add, anything else raises.\<close>

definition add_number :: "real \<Rightarrow> json \<Rightarrow> http_exn + real" where
  "add_number x v =
     (case v of
        JNum y \<Rightarrow> Inr (x + y)
      | JBool b \<Rightarrow> Inr (x + (if b then 1 else 0))
      | _ \<Rightarrow> Inl TypeErr)"

definition chat_request :: "agent \<Rightarrow> string \<Rightarrow> real \<Rightarrow> http_request" where
  "chat_request a message max_cost =
     \<lparr>req_method = POST, req_url = agent_base_url a,
      req_headers = [(''Content-Type'', ''application/json''), (''X-API-Key'', agent_api_key a)],
      req_json = Some (JObj [(''action'', JStr ''optimize''), (''prompt'', JStr message),
                             (''maxCost'', JNum max_cost)]),
      req_timeout = None\<rparr>"

definition failed_response :: json where
  "failed_response = JObj [(''error'', JStr ''Failed to get response'')]"

text \<open>
  The branch of \<^verbatim>\<open>chat\<close> taken on a truthy \<^verbatim>\<open>success\<close> flag. The totals are assigned
  one after the other, so an exception leaves the earlier assignments in place.
\<close>

definition track_usage :: "agent \<Rightarrow> json \<Rightarrow> (http_exn + json) \<times> agent" where
  "track_usage a result =
     (case and_then (subscript result ''data'') (\<lambda>d. subscript d ''optimizedCost'') of
        Inl e \<Rightarrow> (Inl e, a)
      | Inr oc \<Rightarrow>
     (case add_number (total_cost a) oc of
        Inl e \<Rightarrow> (Inl e, a)
      | Inr c \<Rightarrow>
     let a1 = a\<lparr>total_cost := c\<rparr> in
     (case and_then (subscript result ''data'') (\<lambda>d. subscript d ''savings'') of
        Inl e \<Rightarrow> (Inl e, a1)
      | Inr sv \<Rightarrow>
     (case add_number (total_saved a1) sv of
        Inl e \<Rightarrow> (Inl e, a1)
      | Inr s \<Rightarrow>
     let a2 = a1\<lparr>total_saved := s\<rparr>;
         a3 = a2\<lparr>total_calls := total_calls a2 + 1\<rparr>
     in (and_then (subscript result ''data'') (\<lambda>d.
         and_then (subscript d ''optimizedResponse'') (\<lambda>m.
         and_then (subscript d ''optimizedCost'') (\<lambda>c'.
         and_then (subscript d ''savings'') (\<lambda>s'.
         and_then (subscript d ''recommendedProvider'') (\<lambda>pv.
           Inr (JObj [(''message'', m), (''cost'', c'), (''saved'', s'), (''provider'', pv)])))))),
         a3)))))"

definition agent_chat :: "agent \<Rightarrow> network \<Rightarrow> string \<Rightarrow> real \<Rightarrow> (http_exn + json) \<times> agent" where
  "agent_chat a net message max_cost =
     (case net (chat_request a message max_cost) of
        Timeout \<Rightarrow> (Inl RequestsTimeout, a)
      | ConnectionError \<Rightarrow> (Inl RequestsConnectionError, a)
      | Response r \<Rightarrow>
          if status_code r = 200 then
            (case body r of
               None \<Rightarrow> (Inl JSONDecodeError, a)
             | Some result \<Rightarrow>
                 (case subscript result ''success'' of
                    Inl e \<Rightarrow> (Inl e, a)
                  | Inr ok \<Rightarrow> if truthy ok then track_usage a result
                              else (Inr failed_response, a)))
          else (Inr failed_response, a))"




section \<open>Properties of the efficiency metric\<close>

subsection \<open>Finite floats behave as reals\<close>

lemma py_max_Fin: "py_max (Fin a) (Fin b) = Fin (max a b)"
  by (simp add: py_max_def max_def)

lemma py_min_Fin: "py_min (Fin a) (Fin b) = Fin (min a b)"
  by (simp add: py_min_def min_def)

lemma fge_Fin: "fge (Fin a) (Fin b) = (b \<le> a)"
  by (auto simp: fge_def)

lemma fdiv_Fin: "b \<noteq> 0 \<Longrightarrow> fdiv (Fin a) (Fin b) = Inr (Fin (a / b))"
  by simp

subsection \<open>The score on finite inputs\<close>

lemma parse_savings_str:
  "total_savings p = Some (PyStr a) \<Longrightarrow> parse_savings p = float_of_str (savings_text a)"
  by (simp add: parse_savings_def getattr_total_savings_def and_then_def savings_text_def)

lemma metric_try_finite:
  assumes "parse_savings p = Inr (Fin s)"
    and "py_float (dict_get ex ''target_savings'' (PyInt 0)) = Inr (Fin t)"
  shows "metric_try (Fin th) ex p = Inr (Fin (score_formula th t s (length (serialized p))))"
proof -
  have nz: "max t 1 \<noteq> 0" by (simp add: max_def)
  have q: "fdiv (Fin s) (py_max (Fin t) (Fin 1)) = Inr (Fin (s / max t 1))"
    unfolding py_max_Fin using nz by (rule fdiv_Fin)
  have "metric_try (Fin th) ex p =
     (let savings_accuracy = py_min (Fin (s / max t 1)) (Fin 1);
           token_count = length (serialized p);
           token_efficiency = Fin (1 / (1 + real token_count / 1000));
           cost_efficiency = fadd (fmul savings_accuracy (Fin 0.7)) (fmul token_efficiency (Fin 0.3));
           cost_efficiency' = (if fge (Fin s) (fmul (Fin t) (Fin th))
                               then fadd cost_efficiency (Fin 0.2) else cost_efficiency)
       in Inr (py_min cost_efficiency' (Fin 1)))"
    unfolding metric_try_def and_then_def
    by (simp only: assms q sum.case)
  also have "\<dots> = Inr (Fin (score_formula th t s (length (serialized p))))"
    by (simp add: Let_def py_min_Fin fge_Fin score_formula_def mult.commute)
  finally show ?thesis .
qed

lemma metric_call_finite:
  assumes "total_savings p = Some (PyStr a)"
    and "float_of_str (savings_text a) = Inr (Fin s)"
    and "py_float (dict_get ex ''target_savings'' (PyInt 0)) = Inr (Fin t)"
  shows "metric_call (Fin th) ex p = Inr (Fin (score_formula th t s (length (serialized p))))"
  using metric_try_finite [of p s ex t th] assms
  by (simp add: metric_call_def parse_savings_str)


lemma score_formula_le_1: "score_formula th t s n \<le> 1"
  by (simp add: score_formula_def)

lemma score_formula_nonneg:
  assumes "0 \<le> s"
  shows "0 \<le> score_formula th t s n"
proof -
  have pos: "0 < max t 1" by (simp add: max_def)
  have "0 \<le> s / max t 1" using assms pos by simp
  then have a: "0 \<le> min (s / max t 1) 1" by simp
  have c: "0 \<le> 1 / (1 + real n / 1000)" by simp
  have b: "0 \<le> (if s \<ge> t * th then 0.2 else (0::real))" by simp
  have "0 \<le> 0.7 * min (s / max t 1) 1 + 0.3 * (1 / (1 + real n / 1000))
          + (if s \<ge> t * th then 0.2 else 0)"
    using a b c by (intro add_nonneg_nonneg mult_nonneg_nonneg) simp_all
  then show ?thesis by (simp add: score_formula_def)
qed



text \<open>
  Claim C2, as the code has it. With finite parsed savings \<open>s\<close> and target \<open>t\<close> the score
  is a finite number that is at most 1, and it is at least 0 whenever \<open>s\<close> is not
  negative. Only the upper end is clamped.
\<close>

theorem metric_call_bounds:
  assumes "total_savings p = Some (PyStr a)"
    and "float_of_str (savings_text a) = Inr (Fin s)"
    and "py_float (dict_get ex ''target_savings'' (PyInt 0)) = Inr (Fin t)"
  shows "\<exists>x. metric_call (Fin th) ex p = Inr (Fin x) \<and> x \<le> 1 \<and> (0 \<le> s \<longrightarrow> 0 \<le> x)"
  using metric_call_finite [OF assms, of th] score_formula_le_1 score_formula_nonneg
  by blast

theorem metric_call_bounds_witness:
  "float_of_str (savings_text ''$1,200.00'') = Inr (Fin 1200)
   \<and> (\<exists>x. metric_call default_threshold [''target_savings'' \<mapsto> PyInt 25]
             \<lparr>total_savings = Some (PyStr ''$1,200.00''),
              serialized = ''Prediction(total_savings=$1,200.00)''\<rparr> = Inr (Fin x)
          \<and> x \<le> 1 \<and> 0 \<le> x)"
proof -
  have h: "float_of_str (savings_text ''$1,200.00'') = Inr (Fin 1200)" by code_simp
  show ?thesis
    using metric_call_bounds [of
        "\<lparr>total_savings = Some (PyStr ''$1,200.00''),
          serialized = ''Prediction(total_savings=$1,200.00)''\<rparr>"
        "''$1,200.00''" 1200 "[''target_savings'' \<mapsto> PyInt 25]" 25 "0.3"] h
    by (simp add: dict_get_def default_threshold_def)
qed

text \<open>
  Claim C2 as stated fails: reported savings of \<^verbatim>\<open>-1000\<close> against a target of 50 give
  a savings accuracy of -20 and a score below zero.
\<close>

theorem metric_call_negative_score:
  "metric_call default_threshold [''target_savings'' \<mapsto> PyInt 50]
     \<lparr>total_savings = Some (PyStr ''-1000''), serialized = ''Prediction(total_savings=-1000)''\<rparr>
   = Inr (Fin (- 14 + 3 / 10 * (1000 / 1031)))
   \<and> \<not> (0 \<le> (- 14 + 3 / 10 * (1000 / 1031) :: real))"
  by code_simp






section \<open>Properties of the scenario generator\<close>

lemma vary_keeps: "keeps_fixed_fields sc (fst (vary sc g i))"
  by (simp add: vary_def uniform_def Let_def keeps_fixed_fields_def)

lemma scale_between:
  fixes x u lo hi :: real
  assumes "0 \<le> x" and "0 \<le> u" and "u \<le> 1" and "lo \<le> hi"
  shows "lo * x \<le> x * (lo + (hi - lo) * u) \<and> x * (lo + (hi - lo) * u) \<le> hi * x"
proof -
  have a: "0 \<le> (hi - lo) * u" using assms by simp
  have b: "(hi - lo) * u \<le> hi - lo"
    using assms mult_left_le [of u "hi - lo"] by simp
  have "lo \<le> lo + (hi - lo) * u" using a by simp
  then have 1: "x * lo \<le> x * (lo + (hi - lo) * u)"
    using assms(1) by (rule mult_left_mono)
  have "lo + (hi - lo) * u \<le> hi" using b by simp
  then have 2: "x * (lo + (hi - lo) * u) \<le> x * hi"
    using assms(1) by (rule mult_left_mono)
  from 1 2 show ?thesis by (simp add: mult.commute)
qed

lemma vary_within:
  assumes "\<forall>k. 0 \<le> g k \<and> g k \<le> 1" and "nonneg_seed sc"
  shows "within_bounds sc (fst (vary sc g i))"
  using assms scale_between [of "amount sc" "g i" "0.8" "1.2"]
    scale_between [of "query_cost sc" "g (Suc i)" "0.9" "1.1"]
    scale_between [of "target_savings sc" "g (Suc (Suc i))" "0.8" "1.2"]
  by (simp add: vary_def uniform_def Let_def within_bounds_def nonneg_seed_def)

text \<open>The inner loop appends exactly \<open>k\<close> variants of its seed to the dataset.\<close>

lemma variations_append:
  "\<exists>vs. fst (variations k sc g ds i) = ds @ vs \<and> length vs = k \<and>
        (\<forall>v \<in> set vs. \<exists>j. v = fst (vary sc g j))"
proof (induction k arbitrary: ds i)
  case 0
  then show ?case by simp
next
  case (Suc k)
  obtain v i' where v: "vary sc g i = (v, i')" by (cases "vary sc g i")
  from Suc [of "ds @ [v]" i'] obtain vs where
    vs: "fst (variations k sc g (ds @ [v]) i') = (ds @ [v]) @ vs" "length vs = k"
      "\<forall>w \<in> set vs. \<exists>j. w = fst (vary sc g j)"
    by blast
  have step: "variations (Suc k) sc g ds i = variations k sc g (ds @ [v]) i'"
    using v by simp
  have 1: "fst (variations (Suc k) sc g ds i) = ds @ (v # vs)"
    unfolding step using vs(1) by simp
  have 2: "length (v # vs) = Suc k" using vs(2) by simp
  have "\<exists>j. v = fst (vary sc g j)"
    by (rule exI [of _ i]) (simp add: v)
  then have 3: "\<forall>w \<in> set (v # vs). \<exists>j. w = fst (vary sc g j)"
    using vs(3) by simp
  from 1 2 3 show ?case by blast
qed

text \<open>
  The outer loop keeps what the dataset held, appends 20 entries per seed, and entry \<open>n\<close>
  of what it appends is a variant of seed \<open>n div 20\<close>.
\<close>

lemma generate_nth:
  assumes P: "\<And>sc j. sc \<in> set scs \<Longrightarrow> P sc (fst (vary sc g j))"
  shows "length (fst (generate scs g ds i)) = length ds + 20 * length scs \<and>
         take (length ds) (fst (generate scs g ds i)) = ds \<and>
         (\<forall>n < 20 * length scs. P (scs ! (n div 20)) (fst (generate scs g ds i) ! (length ds + n)))"
  using P
proof (induction scs arbitrary: ds i)
  case Nil
  then show ?case by simp
next
  case (Cons sc scs)
  obtain ds' i' where step: "variations 20 sc g ds i = (ds', i')"
    by (cases "variations 20 sc g ds i")
  from variations_append [of 20 sc g ds i] step obtain vs where
    vs: "ds' = ds @ vs" "length vs = 20" "\<forall>v \<in> set vs. \<exists>j. v = fst (vary sc g j)"
    by auto
  have IH: "length (fst (generate scs g ds' i')) = length ds' + 20 * length scs \<and>
         take (length ds') (fst (generate scs g ds' i')) = ds' \<and>
         (\<forall>n < 20 * length scs. P (scs ! (n div 20)) (fst (generate scs g ds' i') ! (length ds' + n)))"
    using Cons.IH [of ds' i'] Cons.prems by simp
  have gen: "generate (sc # scs) g ds i = generate scs g ds' i'"
    using step by simp
  let ?out = "fst (generate scs g ds' i')"
  have len: "length ?out = length ds + 20 * length (sc # scs)"
    using IH vs by simp
  have pre': "take (length ds') ?out = ds'" using IH by simp
  have pre: "take (length ds) ?out = ds"
  proof -
    have "take (length ds) (take (length ds') ?out) = take (length ds) ds'"
      using pre' by simp
    then show ?thesis using vs by (simp add: min_def)
  qed
  have nth: "P ((sc # scs) ! (n div 20)) (?out ! (length ds + n))"
    if n: "n < 20 * length (sc # scs)" for n
  proof (cases "n < 20")
    case True
    have "?out ! (length ds + n) = take (length ds') ?out ! (length ds + n)"
      using True vs by simp
    also have "\<dots> = ds' ! (length ds + n)" using pre' by simp
    also have "\<dots> = vs ! n" using vs by (simp add: nth_append)
    finally have e: "?out ! (length ds + n) = vs ! n" .
    have "vs ! n \<in> set vs" using True vs by simp
    then obtain j where "vs ! n = fst (vary sc g j)" using vs by blast
    then have "P sc (vs ! n)" using Cons.prems [of sc j] by simp
    moreover have "(sc # scs) ! (n div 20) = sc" using True by simp
    ultimately show ?thesis using e by simp
  next
    case False
    define m where "m = n - 20"
    have m: "n = m + 20" "m < 20 * length scs" using False n by (simp_all add: m_def)
    have d: "n div 20 = Suc (m div 20)" using m by simp
    have "P (scs ! (m div 20)) (?out ! (length ds' + m))" using IH m by blast
    moreover have "length ds' + m = length ds + n" using vs m by simp
    ultimately show ?thesis using d by simp
  qed
  show ?case
    unfolding gen using len pre nth by blast
qed

lemma scenarios_nonneg: "\<forall>sc \<in> set scenarios. nonneg_seed sc"
  by (simp add: scenarios_def nonneg_seed_def)

lemma length_scenarios: "length scenarios = 5"
  by (simp add: scenarios_def)

text \<open>
  Claim C5. Whatever unit draws the generator produces, entry \<open>i\<close> of the dataset lies
  within 20 percent of its seed (entry \<open>i div 20\<close> of the seed list) in \<^verbatim>\<open>amount\<close> and
  \<^verbatim>\<open>target_savings\<close>, and within 10 percent in \<^verbatim>\<open>query_cost\<close>.
\<close>

theorem dataset_within_bounds:
  assumes "\<forall>k. 0 \<le> g k \<and> g k \<le> 1" and "i < 100"
  shows "within_bounds (scenarios ! (i div 20)) (create_mock_payment_dataset g ! i)"
proof -
  have "\<And>sc j. sc \<in> set scenarios \<Longrightarrow> within_bounds sc (fst (vary sc g j))"
    using vary_within [OF assms(1)] scenarios_nonneg by blast
  from generate_nth [of scenarios within_bounds g "[]" 0, OF this] assms(2)
  show ?thesis
    by (simp add: create_mock_payment_dataset_def length_scenarios)
qed

text \<open>
  With draws that alternate between 0 and 1, the last entry is the fifth seed with its
  amount at the upper bound.
\<close>

theorem dataset_within_bounds_witness:
  "within_bounds (scenarios ! 4) (create_mock_payment_dataset (\<lambda>k. if even k then 0 else 1) ! 99)
   \<and> amount (create_mock_payment_dataset (\<lambda>k. if even k then 0 else 1) ! 99) = 3600"
proof -
  have "amount (create_mock_payment_dataset (\<lambda>k. if even k then 0 else 1) ! 99) = 3600"
    by code_simp
  then show ?thesis
    using dataset_within_bounds [of "\<lambda>k. if even k then 0 else 1" 99] by simp
qed

text \<open>
  Claim C6. The dataset has exactly 100 entries, 20 consecutive ones for each of the 5
  seeds in seed order, and every entry keeps its seed's \<^verbatim>\<open>currency\<close>,
  \<^verbatim>\<open>invoice_details\<close>, \<^verbatim>\<open>user_balance\<close> and \<^verbatim>\<open>urgency\<close>.
\<close>

theorem dataset_shape:
  "length (create_mock_payment_dataset g) = 100 \<and> length scenarios = 5 \<and>
   (\<forall>i < 100. keeps_fixed_fields (scenarios ! (i div 20)) (create_mock_payment_dataset g ! i))"
proof -
  have "\<And>sc j. sc \<in> set scenarios \<Longrightarrow> keeps_fixed_fields sc (fst (vary sc g j))"
    by (rule vary_keeps)
  from generate_nth [of scenarios keeps_fixed_fields g "[]" 0, OF this]
  show ?thesis
    by (simp add: create_mock_payment_dataset_def length_scenarios)
qed

theorem dataset_shape_witness:
  "length (create_mock_payment_dataset (\<lambda>k. 1 / 2)) = 100
   \<and> keeps_fixed_fields (scenarios ! 1) (create_mock_payment_dataset (\<lambda>k. 1 / 2) ! 37)
   \<and> invoice_details (create_mock_payment_dataset (\<lambda>k. 1 / 2) ! 37) = ''Marketing services invoice''"
proof -
  have every: "\<forall>i < 100. keeps_fixed_fields (scenarios ! (i div 20))
                  (create_mock_payment_dataset (\<lambda>k. 1 / 2) ! i)"
    using dataset_shape [of "\<lambda>k. 1 / 2"] by simp
  have "keeps_fixed_fields (scenarios ! (37 div 20)) (create_mock_payment_dataset (\<lambda>k. 1 / 2) ! 37)"
    using spec [OF every, of 37] by simp
  then show ?thesis
    using dataset_shape [of "\<lambda>k. 1 / 2"]
    by (simp add: keeps_fixed_fields_def scenarios_def)
qed

section \<open>Properties of the SDK client\<close>

lemma handle_reply_failure:
  assumes "200 \<le> status_code r" and "status_code r < 300"
    and "body r = Some (JObj kvs)" and "map_of kvs ''success'' = Some (JBool False)"
  shows "handle_reply (Response r) = Inl (api_error kvs)"
  using assms by (simp add: handle_reply_def)

lemma make_request_failure:
  assumes net: "\<forall>rq. net rq = Response r"
    and r: "200 \<le> status_code r" "status_code r < 300"
      "body r = Some (JObj kvs)" "map_of kvs ''success'' = Some (JBool False)"
    and m: "map upper method = ''GET'' \<or> map upper method = ''POST''"
  shows "fst (make_request c net endpoint method data) = Inl (api_error kvs)"
  using m handle_reply_failure [OF r]
  by (auto simp: make_request_def send_def Let_def net)

lemma upper_GET: "map upper ''GET'' = ''GET''"
  by (simp add: upper_def)

lemma upper_POST: "map upper ''POST'' = ''POST''"
  by (simp add: upper_def)

text \<open>
  Claim C7. When the server answers with a 2xx status and a decoded object whose
  \<^verbatim>\<open>success\<close> entry is \<^verbatim>\<open>false\<close>, \<^verbatim>\<open>_make_request\<close> (for a GET or POST) and each of
  \<^verbatim>\<open>optimize\<close>, \<^verbatim>\<open>chat\<close>, \<^verbatim>\<open>connect_wallet\<close>, \<^verbatim>\<open>get_analytics\<close>, \<^verbatim>\<open>get_providers\<close> and
  \<^verbatim>\<open>get_info\<close> (called with the arguments they require) raise a \<^verbatim>\<open>ValueError\<close> that
  carries the body's \<^verbatim>\<open>error\<close> string, or \<^verbatim>\<open>Unknown API error\<close> when the entry is absent.
\<close>

theorem failure_envelope_raises:
  assumes net: "\<forall>rq. net rq = Response r"
    and r: "200 \<le> status_code r" "status_code r < 300"
      "body r = Some (JObj kvs)" "map_of kvs ''success'' = Some (JBool False)"
  shows "(map upper method = ''GET'' \<or> map upper method = ''POST'' \<longrightarrow>
            fst (make_request c net endpoint method data) = Inl (api_error kvs))
       \<and> (truthy_str prompt \<and> truthy_str wallet \<longrightarrow>
            fst (optimize c net prompt wallet provider max_cost) = Inl (api_error kvs))
       \<and> (truthy_str message \<and> truthy_str wallet \<longrightarrow>
            fst (chat c net message wallet) = Inl (api_error kvs))
       \<and> (truthy_str wallet \<longrightarrow>
            fst (connect_wallet c net wallet signature) = Inl (api_error kvs))
       \<and> (truthy_str wallet \<longrightarrow> fst (get_analytics c net wallet) = Inl (api_error kvs))
       \<and> fst (get_providers c net) = Inl (api_error kvs)
       \<and> fst (get_info c net) = Inl (api_error kvs)
       \<and> (map_of kvs ''error'' = Some (JStr msg) \<longrightarrow> api_error kvs = ValueErr (JStr msg))
       \<and> (map_of kvs ''error'' = None \<longrightarrow> api_error kvs = ValueErr (JStr ''Unknown API error''))"
proof -
  note mr = make_request_failure [OF net r]
  have get: "\<And>e d. fst (make_request c net e ''GET'' d) = Inl (api_error kvs)"
    by (rule mr, rule disjI1, rule upper_GET)
  have post: "\<And>e d. fst (make_request c net e ''POST'' d) = Inl (api_error kvs)"
    by (rule mr, rule disjI2, rule upper_POST)
  have 1: "map upper method = ''GET'' \<or> map upper method = ''POST'' \<longrightarrow>
            fst (make_request c net endpoint method data) = Inl (api_error kvs)"
    by (rule impI) (rule mr)
  have 2: "truthy_str prompt \<and> truthy_str wallet \<longrightarrow>
            fst (optimize c net prompt wallet provider max_cost) = Inl (api_error kvs)"
    by (simp add: optimize_def Let_def post split: option.split)
  have 3: "truthy_str message \<and> truthy_str wallet \<longrightarrow>
            fst (chat c net message wallet) = Inl (api_error kvs)"
    by (simp add: chat_def post)
  have 4: "truthy_str wallet \<longrightarrow>
            fst (connect_wallet c net wallet signature) = Inl (api_error kvs)"
    by (simp add: connect_wallet_def Let_def post)
  have 5: "truthy_str wallet \<longrightarrow> fst (get_analytics c net wallet) = Inl (api_error kvs)"
    by (simp add: get_analytics_def truthy_str_def get split: option.split)
  have 6: "fst (get_providers c net) = Inl (api_error kvs)"
    by (simp add: get_providers_def get)
  have 7: "fst (get_info c net) = Inl (api_error kvs)"
    by (simp add: get_info_def get)
  have 8: "map_of kvs ''error'' = Some (JStr msg) \<longrightarrow> api_error kvs = ValueErr (JStr msg)"
    by (simp add: api_error_def)
  have 9: "map_of kvs ''error'' = None \<longrightarrow> api_error kvs = ValueErr (JStr ''Unknown API error'')"
    by (simp add: api_error_def)
  from 1 2 3 4 5 6 7 8 9 show ?thesis by (intro conjI)
qed

text \<open>
  The body \<^verbatim>\<open>{success: false, error: "bad wallet"}\<close> raises with the message
  \<^verbatim>\<open>bad wallet\<close>; without the \<^verbatim>\<open>error\<close> entry the message is the default one.
\<close>

theorem failure_envelope_raises_witness:
  "fst (optimize (init_client ''key'' ''https://api.example.com/v1/'' 30)
          (\<lambda>rq. Response \<lparr>status_code = 200, reason = ''OK'',
             body = Some (JObj [(''success'', JBool False), (''error'', JStr ''bad wallet'')])\<rparr>)
          (Some ''Explain x402'') (Some ''0xabc'') None None)
     = Inl (ValueErr (JStr ''bad wallet''))
   \<and> fst (get_info (init_client ''key'' ''https://api.example.com/v1/'' 30)
          (\<lambda>rq. Response \<lparr>status_code = 200, reason = ''OK'',
             body = Some (JObj [(''success'', JBool False)])\<rparr>))
     = Inl (ValueErr (JStr ''Unknown API error''))"
proof -
  have a: "fst (optimize (init_client ''key'' ''https://api.example.com/v1/'' 30)
          (\<lambda>rq. Response \<lparr>status_code = 200, reason = ''OK'',
             body = Some (JObj [(''success'', JBool False), (''error'', JStr ''bad wallet'')])\<rparr>)
          (Some ''Explain x402'') (Some ''0xabc'') None None)
     = Inl (ValueErr (JStr ''bad wallet''))"
    using failure_envelope_raises [where
        net = "\<lambda>rq. Response \<lparr>status_code = 200, reason = ''OK'',
             body = Some (JObj [(''success'', JBool False), (''error'', JStr ''bad wallet'')])\<rparr>"
        and r = "\<lparr>status_code = 200, reason = ''OK'',
             body = Some (JObj [(''success'', JBool False), (''error'', JStr ''bad wallet'')])\<rparr>"
        and kvs = "[(''success'', JBool False), (''error'', JStr ''bad wallet'')]"
        and c = "init_client ''key'' ''https://api.example.com/v1/'' 30"
        and prompt = "Some ''Explain x402''" and wallet = "Some ''0xabc''"
        and provider = None and max_cost = None and msg = "''bad wallet''"]
    by (simp add: truthy_str_def)
  have b: "fst (get_info (init_client ''key'' ''https://api.example.com/v1/'' 30)
          (\<lambda>rq. Response \<lparr>status_code = 200, reason = ''OK'',
             body = Some (JObj [(''success'', JBool False)])\<rparr>))
     = Inl (ValueErr (JStr ''Unknown API error''))"
    using failure_envelope_raises [where
        net = "\<lambda>rq. Response \<lparr>status_code = 200, reason = ''OK'',
             body = Some (JObj [(''success'', JBool False)])\<rparr>"
        and r = "\<lparr>status_code = 200, reason = ''OK'',
             body = Some (JObj [(''success'', JBool False)])\<rparr>"
        and kvs = "[(''success'', JBool False)]"
        and c = "init_client ''key'' ''https://api.example.com/v1/'' 30"]
    by simp
  from a b show ?thesis by (rule conjI)
qed

text \<open>
  Claim C8. \<^verbatim>\<open>optimize\<close> with an empty or missing prompt or wallet address, and \<^verbatim>\<open>chat\<close>
  with an empty or missing message or wallet address, raise a \<^verbatim>\<open>ValueError\<close> that names
  the parameter, and the list of issued HTTP requests is empty.
\<close>

theorem missing_parameter_raises:
  "(\<not> truthy_str prompt \<longrightarrow>
      optimize c net prompt wallet provider max_cost
        = (Inl (ValueErr (JStr ''prompt is required'')), []))
   \<and> (truthy_str prompt \<and> \<not> truthy_str wallet \<longrightarrow>
      optimize c net prompt wallet provider max_cost
        = (Inl (ValueErr (JStr ''wallet_address is required'')), []))
   \<and> (\<not> truthy_str message \<longrightarrow>
      chat c net message wallet = (Inl (ValueErr (JStr ''message is required'')), []))
   \<and> (truthy_str message \<and> \<not> truthy_str wallet \<longrightarrow>
      chat c net message wallet = (Inl (ValueErr (JStr ''wallet_address is required'')), []))"
  by (simp add: optimize_def chat_def)

theorem missing_parameter_raises_witness:
  "optimize (init_client ''key'' ''https://api.example.com/v1/'' 30) (\<lambda>rq. Timeout)
     (Some []) (Some ''0xabc'') None None
     = (Inl (ValueErr (JStr ''prompt is required'')), [])
   \<and> chat (init_client ''key'' ''https://api.example.com/v1/'' 30) (\<lambda>rq. Timeout)
       (Some ''hello'') None
     = (Inl (ValueErr (JStr ''wallet_address is required'')), [])"
  using missing_parameter_raises [where prompt = "Some []" and wallet = "Some ''0xabc''"
      and c = "init_client ''key'' ''https://api.example.com/v1/'' 30" and net = "\<lambda>rq. Timeout"
      and provider = None and max_cost = None and message = None]
    missing_parameter_raises [where message = "Some ''hello''" and wallet = None
      and c = "init_client ''key'' ''https://api.example.com/v1/'' 30" and net = "\<lambda>rq. Timeout"
      and prompt = None]
  by (simp add: truthy_str_def)

section \<open>Properties of the quick-start agent\<close>

lemma track_usage_complete:
  assumes "map_of kvs ''data'' = Some (JObj d)"
    and "map_of d ''optimizedCost'' = Some (JNum oc)" and "map_of d ''savings'' = Some (JNum sv)"
    and "map_of d ''optimizedResponse'' = Some m" and "map_of d ''recommendedProvider'' = Some pv"
  shows "track_usage a (JObj kvs) =
           (Inr (JObj [(''message'', m), (''cost'', JNum oc), (''saved'', JNum sv), (''provider'', pv)]),
            a\<lparr>total_cost := total_cost a + oc, total_saved := total_saved a + sv,
              total_calls := total_calls a + 1\<rparr>)"
  using assms
  by (simp add: track_usage_def subscript_def and_then_def add_number_def Let_def)

text \<open>
  Claim C9. On a 200 response whose envelope has \<^verbatim>\<open>success: true\<close> and complete data,
  \<^verbatim>\<open>chat\<close> adds \<^verbatim>\<open>optimizedCost\<close> to \<^verbatim>\<open>total_cost\<close>, \<^verbatim>\<open>savings\<close> to \<^verbatim>\<open>total_saved\<close> and
  1 to \<^verbatim>\<open>total_calls\<close>. On any other status, or on an envelope with \<^verbatim>\<open>success: false\<close>,
  it returns \<^verbatim>\<open>{'error': 'Failed to get response'}\<close> without raising and leaves the
  totals as they were.
\<close>

theorem agent_chat_totals:
  "(net (chat_request a message max_cost) = Response r \<and> status_code r = 200
      \<and> body r = Some (JObj kvs) \<and> map_of kvs ''success'' = Some (JBool True)
      \<and> map_of kvs ''data'' = Some (JObj d)
      \<and> map_of d ''optimizedCost'' = Some (JNum oc) \<and> map_of d ''savings'' = Some (JNum sv)
      \<and> map_of d ''optimizedResponse'' = Some m \<and> map_of d ''recommendedProvider'' = Some pv
    \<longrightarrow> agent_chat a net message max_cost =
          (Inr (JObj [(''message'', m), (''cost'', JNum oc), (''saved'', JNum sv), (''provider'', pv)]),
           a\<lparr>total_cost := total_cost a + oc, total_saved := total_saved a + sv,
             total_calls := total_calls a + 1\<rparr>))
   \<and> (net (chat_request a message max_cost) = Response r
      \<and> (status_code r \<noteq> 200
         \<or> body r = Some (JObj kvs) \<and> map_of kvs ''success'' = Some (JBool False))
    \<longrightarrow> agent_chat a net message max_cost = (Inr failed_response, a))"
proof (intro conjI impI)
  assume h: "net (chat_request a message max_cost) = Response r \<and> status_code r = 200
      \<and> body r = Some (JObj kvs) \<and> map_of kvs ''success'' = Some (JBool True)
      \<and> map_of kvs ''data'' = Some (JObj d)
      \<and> map_of d ''optimizedCost'' = Some (JNum oc) \<and> map_of d ''savings'' = Some (JNum sv)
      \<and> map_of d ''optimizedResponse'' = Some m \<and> map_of d ''recommendedProvider'' = Some pv"
  then have "agent_chat a net message max_cost = track_usage a (JObj kvs)"
    by (simp add: agent_chat_def subscript_def)
  also have "\<dots> = (Inr (JObj [(''message'', m), (''cost'', JNum oc), (''saved'', JNum sv), (''provider'', pv)]),
           a\<lparr>total_cost := total_cost a + oc, total_saved := total_saved a + sv,
             total_calls := total_calls a + 1\<rparr>)"
  proof (rule track_usage_complete)
    show "map_of kvs ''data'' = Some (JObj d)" using h by blast
    show "map_of d ''optimizedCost'' = Some (JNum oc)" using h by blast
    show "map_of d ''savings'' = Some (JNum sv)" using h by blast
    show "map_of d ''optimizedResponse'' = Some m" using h by blast
    show "map_of d ''recommendedProvider'' = Some pv" using h by blast
  qed
  finally show "agent_chat a net message max_cost =
          (Inr (JObj [(''message'', m), (''cost'', JNum oc), (''saved'', JNum sv), (''provider'', pv)]),
           a\<lparr>total_cost := total_cost a + oc, total_saved := total_saved a + sv,
             total_calls := total_calls a + 1\<rparr>)" .
next
  assume h: "net (chat_request a message max_cost) = Response r
      \<and> (status_code r \<noteq> 200
         \<or> body r = Some (JObj kvs) \<and> map_of kvs ''success'' = Some (JBool False))"
  then show "agent_chat a net message max_cost = (Inr failed_response, a)"
    by (auto simp: agent_chat_def subscript_def)
qed

theorem agent_chat_totals_witness:
  "agent_chat (init_agent ''oa_key'' ''https://api.example.com/v1'')
     (\<lambda>rq. Response \<lparr>status_code = 200, reason = ''OK'',
        body = Some (JObj [(''success'', JBool True),
          (''data'', JObj [(''optimizedResponse'', JStr ''hi''), (''optimizedCost'', JNum (3 / 100)),
                          (''savings'', JNum (1 / 100)), (''recommendedProvider'', JStr ''openai'')])])\<rparr>)
     ''hello'' (5 / 100)
   = (Inr (JObj [(''message'', JStr ''hi''), (''cost'', JNum (3 / 100)), (''saved'', JNum (1 / 100)),
                 (''provider'', JStr ''openai'')]),
      \<lparr>agent_api_key = ''oa_key'', agent_base_url = ''https://api.example.com/v1'',
       total_cost = 3 / 100, total_saved = 1 / 100, total_calls = 1\<rparr>)
   \<and> agent_chat (init_agent ''oa_key'' ''https://api.example.com/v1'')
       (\<lambda>rq. Response \<lparr>status_code = 500, reason = ''Internal Server Error'', body = None\<rparr>)
       ''hello'' (5 / 100)
     = (Inr failed_response, init_agent ''oa_key'' ''https://api.example.com/v1'')"
proof -
  have a: "agent_chat (init_agent ''oa_key'' ''https://api.example.com/v1'')
     (\<lambda>rq. Response \<lparr>status_code = 200, reason = ''OK'',
        body = Some (JObj [(''success'', JBool True),
          (''data'', JObj [(''optimizedResponse'', JStr ''hi''), (''optimizedCost'', JNum (3 / 100)),
                          (''savings'', JNum (1 / 100)), (''recommendedProvider'', JStr ''openai'')])])\<rparr>)
     ''hello'' (5 / 100)
   = (Inr (JObj [(''message'', JStr ''hi''), (''cost'', JNum (3 / 100)), (''saved'', JNum (1 / 100)),
                 (''provider'', JStr ''openai'')]),
      \<lparr>agent_api_key = ''oa_key'', agent_base_url = ''https://api.example.com/v1'',
       total_cost = 3 / 100, total_saved = 1 / 100, total_calls = 1\<rparr>)"
    using agent_chat_totals [where a = "init_agent ''oa_key'' ''https://api.example.com/v1''"
        and net = "\<lambda>rq. Response \<lparr>status_code = 200, reason = ''OK'',
        body = Some (JObj [(''success'', JBool True),
          (''data'', JObj [(''optimizedResponse'', JStr ''hi''), (''optimizedCost'', JNum (3 / 100)),
                          (''savings'', JNum (1 / 100)), (''recommendedProvider'', JStr ''openai'')])])\<rparr>"
        and r = "\<lparr>status_code = 200, reason = ''OK'',
        body = Some (JObj [(''success'', JBool True),
          (''data'', JObj [(''optimizedResponse'', JStr ''hi''), (''optimizedCost'', JNum (3 / 100)),
                          (''savings'', JNum (1 / 100)), (''recommendedProvider'', JStr ''openai'')])])\<rparr>"
        and kvs = "[(''success'', JBool True),
          (''data'', JObj [(''optimizedResponse'', JStr ''hi''), (''optimizedCost'', JNum (3 / 100)),
                          (''savings'', JNum (1 / 100)), (''recommendedProvider'', JStr ''openai'')])]"
        and d = "[(''optimizedResponse'', JStr ''hi''), (''optimizedCost'', JNum (3 / 100)),
                          (''savings'', JNum (1 / 100)), (''recommendedProvider'', JStr ''openai'')]"
        and oc = "3 / 100" and sv = "1 / 100" and m = "JStr ''hi''" and pv = "JStr ''openai''"
        and message = "''hello''" and max_cost = "5 / 100"]
    by (simp add: init_agent_def)
  have b: "agent_chat (init_agent ''oa_key'' ''https://api.example.com/v1'')
       (\<lambda>rq. Response \<lparr>status_code = 500, reason = ''Internal Server Error'', body = None\<rparr>)
       ''hello'' (5 / 100)
     = (Inr failed_response, init_agent ''oa_key'' ''https://api.example.com/v1'')"
    using agent_chat_totals [where a = "init_agent ''oa_key'' ''https://api.example.com/v1''"
        and net = "\<lambda>rq. Response \<lparr>status_code = 500, reason = ''Internal Server Error'', body = None\<rparr>"
        and r = "\<lparr>status_code = 500, reason = ''Internal Server Error'', body = None\<rparr>"
        and message = "''hello''" and max_cost = "5 / 100"]
    by simp
  from a b show ?thesis by (rule conjI)
qed



end
